theory Spec2Isabelle
  imports Main
begin

unbundle bit_operations_syntax

section \<open>Go values the adapter works with\<close>

text \<open>
  The package \<open>rest\<close> adapts a whole-object REST backend (the interface
  \<open>FileRESTAPI\<close>) to the random-access file interface of \<open>webdav.FileSystem\<close>.
  Byte slices are lists of characters (a \<open>char\<close> is one byte), Go's \<open>int\<close> and
  \<open>int64\<close> are \<open>int\<close> with the 64-bit wrap-around written out where the code adds,
  and \<open>os.FileMode\<close> and \<open>time.Time\<close> are natural numbers.
\<close>

type_synonym bytes = string

text \<open>
  A Go \<open>error\<close> value: the sentinels of the packages \<open>io/fs\<close>, \<open>os\<close>,
  \<open>syscall\<close> and \<open>io\<close> that the code meets, an opaque error carrying its text, and
  \<open>fmt.Errorf("...: %w", err)\<close>, which wraps an error under a context string.
  A nil error is \<open>None\<close> of \<open>error option\<close>.
\<close>

datatype error =
    ErrNotExist
  | ErrExist
  | ErrInvalid
  | ErrClosed
  | EBADF
  | EOF
  | Opaque string
  | Wrap string error

text \<open>\<open>errors.Is\<close> walks the chain of wrapped errors and compares each link with the target.\<close>

fun errors_Is :: "error \<Rightarrow> error \<Rightarrow> bool" where
  "errors_Is (Wrap m e) target = (Wrap m e = target \<or> errors_Is e target)"
| "errors_Is e target = (e = target)"

text \<open>With a nil error \<open>errors.Is\<close> answers \<open>err == target\<close>, false for a sentinel target.\<close>

fun errors_Is_nilable :: "error option \<Rightarrow> error \<Rightarrow> bool" where
  "errors_Is_nilable None target = False"
| "errors_Is_nilable (Some e) target = errors_Is e target"

text \<open>The open flags of package \<open>os\<close> (their values on Linux) and the whence values of \<open>io\<close>.\<close>

definition O_RDONLY :: int where "O_RDONLY = 0"
definition O_WRONLY :: int where "O_WRONLY = 1"
definition O_RDWR :: int where "O_RDWR = 2"
definition O_CREATE :: int where "O_CREATE = 64"
definition O_EXCL :: int where "O_EXCL = 128"
definition O_TRUNC :: int where "O_TRUNC = 512"
definition O_APPEND :: int where "O_APPEND = 1024"

definition SeekStart :: int where "SeekStart = 0"
definition SeekCurrent :: int where "SeekCurrent = 1"
definition SeekEnd :: int where "SeekEnd = 2"

text \<open>Addition on \<open>int64\<close> wraps around in two's complement.\<close>

definition wrap64 :: "int \<Rightarrow> int" where
  "wrap64 x = (x + 2 ^ 63) mod 2 ^ 64 - 2 ^ 63"

text \<open>
  The metadata a backend returns from \<open>Stat\<close> (the values an \<open>fs.FileInfo\<close> answers
  with), and the synthetic metadata \<open>newFileInfo\<close> of the package with its accessor
  methods.
\<close>

record FileInfo =
  fi_name :: string
  fi_size :: int
  fi_mode :: nat
  fi_modTime :: nat
  fi_isDir :: bool

record newFileInfo =
  nfi_name :: string
  nfi_mode :: nat
  nfi_t :: nat

definition newFileInfo_Name :: "newFileInfo \<Rightarrow> string" where
  "newFileInfo_Name newfileinfo = nfi_name newfileinfo"

definition newFileInfo_Size :: "newFileInfo \<Rightarrow> int" where
  "newFileInfo_Size newfileinfo = 0"

definition newFileInfo_Mode :: "newFileInfo \<Rightarrow> nat" where
  "newFileInfo_Mode newfileinfo = nfi_mode newfileinfo"

definition newFileInfo_ModTime :: "newFileInfo \<Rightarrow> nat" where
  "newFileInfo_ModTime newfileinfo = nfi_t newfileinfo"

definition newFileInfo_IsDir :: "newFileInfo \<Rightarrow> bool" where
  "newFileInfo_IsDir newfileinfo = False"

text \<open>
  An \<open>fs.FileInfo\<close> interface value as \<open>File.Stat\<close> returns it: the backend's own
  metadata, or a pointer to a \<open>newFileInfo\<close>. The interface methods dispatch on it.
\<close>

datatype fs_FileInfo = Backend FileInfo | Synthetic newFileInfo

fun Info_Name :: "fs_FileInfo \<Rightarrow> string" where
  "Info_Name (Backend s) = fi_name s"
| "Info_Name (Synthetic n) = newFileInfo_Name n"

fun Info_Size :: "fs_FileInfo \<Rightarrow> int" where
  "Info_Size (Backend s) = fi_size s"
| "Info_Size (Synthetic n) = newFileInfo_Size n"

fun Info_Mode :: "fs_FileInfo \<Rightarrow> nat" where
  "Info_Mode (Backend s) = fi_mode s"
| "Info_Mode (Synthetic n) = newFileInfo_Mode n"

fun Info_IsDir :: "fs_FileInfo \<Rightarrow> bool" where
  "Info_IsDir (Backend s) = fi_isDir s"
| "Info_IsDir (Synthetic n) = newFileInfo_IsDir n"

section \<open>The backend interface and the world the code runs in\<close>

text \<open>
  \<open>FileRESTAPI\<close> is an interface: any implementation may stand behind it. It is a
  record of functions over the implementation's own state \<open>'b\<close>. A content stream
  (\<open>io.ReadCloser\<close>) is the bytes it yields and the error it ends with, if any; the
  \<open>io.Reader\<close> handed to \<open>Update\<close> and \<open>NewFile\<close> is the bytes it would yield.
  Only the four methods that the file handle and \<open>OpenFile\<close> call are modelled.
\<close>

type_synonym stream = "bytes \<times> error option"

record 'b FileRESTAPI =
  GetContent :: "string \<Rightarrow> 'b \<Rightarrow> (error + stream) \<times> 'b"
  Stat :: "string \<Rightarrow> 'b \<Rightarrow> (error + FileInfo) \<times> 'b"
  Update :: "string \<Rightarrow> bytes \<Rightarrow> 'b \<Rightarrow> error option \<times> 'b"
  NewFile :: "string \<Rightarrow> bytes \<Rightarrow> 'b \<Rightarrow> error option \<times> 'b"

text \<open>The calls made on the backend are recorded in order, with their arguments.\<close>

datatype call =
    CallStat string
  | CallGetContent string
  | CallUpdate string bytes
  | CallNewFile string bytes

text \<open>
  The library calls on the local disk whose failure the code checks. A world lists the
  ones that fail; an empty list is a disk on which every operation does what its
  arguments ask for.
\<close>

datatype osop = OpMkdirAll | OpCreateTemp | OpOpenFile | OpRead | OpWrite | OpSeek | OpClose

text \<open>
  The world: the backend's state, the trace of backend calls, the staging directory
  \<open>tmp\<close> (file names are numbers, \<open>fresh\<close> the next unused one), the failing disk
  operations, and the clock read by \<open>time.Now\<close>.
\<close>

record 'b world =
  backend :: 'b
  calls :: "call list"
  disk :: "nat \<Rightarrow> bytes option"
  fresh :: nat
  faults :: "osop list"
  now :: nat

definition api_Stat :: "'b FileRESTAPI \<Rightarrow> string \<Rightarrow> 'b world \<Rightarrow> (error + FileInfo) \<times> 'b world" where
  "api_Stat a nm w =
     (case Stat a nm (backend w) of
        (r, b) \<Rightarrow> (r, w\<lparr>backend := b, calls := calls w @ [CallStat nm]\<rparr>))"

definition api_GetContent :: "'b FileRESTAPI \<Rightarrow> string \<Rightarrow> 'b world \<Rightarrow> (error + stream) \<times> 'b world" where
  "api_GetContent a nm w =
     (case GetContent a nm (backend w) of
        (r, b) \<Rightarrow> (r, w\<lparr>backend := b, calls := calls w @ [CallGetContent nm]\<rparr>))"

definition api_Update :: "'b FileRESTAPI \<Rightarrow> string \<Rightarrow> bytes \<Rightarrow> 'b world \<Rightarrow> error option \<times> 'b world" where
  "api_Update a nm content w =
     (case Update a nm content (backend w) of
        (r, b) \<Rightarrow> (r, w\<lparr>backend := b, calls := calls w @ [CallUpdate nm content]\<rparr>))"

definition api_NewFile :: "'b FileRESTAPI \<Rightarrow> string \<Rightarrow> bytes \<Rightarrow> 'b world \<Rightarrow> error option \<times> 'b world" where
  "api_NewFile a nm content w =
     (case NewFile a nm content (backend w) of
        (r, b) \<Rightarrow> (r, w\<lparr>backend := b, calls := calls w @ [CallNewFile nm content]\<rparr>))"

section \<open>The calls into package os\<close>

text \<open>
  Packages \<open>os\<close> and \<open>io\<close> belong to Go's standard library, not to the repository.
  Their calls are modelled after their documented behaviour on Linux, as far as the
  adapter depends on it, each with the failure the adapter checks for.

  An open \<open>*os.File\<close>: the file it names, its offset, the flags it was opened with and
  whether it has been closed. A nil \<open>*os.File\<close> is \<open>None\<close>.
\<close>

record os_File =
  path :: nat
  offset :: nat
  oflag :: int
  closed :: bool

definition fault :: "'b world \<Rightarrow> osop \<Rightarrow> error option" where
  "fault w opn = (if opn \<in> set (faults w) then Some (Opaque ''input/output error'') else None)"

definition can_read :: "int \<Rightarrow> bool" where
  "can_read fl = (fl AND 3 = O_RDONLY \<or> fl AND 3 = O_RDWR)"

definition can_write :: "int \<Rightarrow> bool" where
  "can_write fl = (fl AND 3 = O_WRONLY \<or> fl AND 3 = O_RDWR)"

definition content_of :: "'b world \<Rightarrow> nat \<Rightarrow> bytes" where
  "content_of w p = (case disk w p of None \<Rightarrow> [] | Some c \<Rightarrow> c)"

definition os_MkdirAll :: "'b world \<Rightarrow> error option" where
  "os_MkdirAll w = fault w OpMkdirAll"

definition os_CreateTemp :: "'b world \<Rightarrow> (error + os_File) \<times> 'b world" where
  "os_CreateTemp w =
     (case fault w OpCreateTemp of
        Some e \<Rightarrow> (Inl e, w)
      | None \<Rightarrow>
          (Inr \<lparr>path = fresh w, offset = 0, oflag = O_RDWR OR O_CREATE OR O_EXCL, closed = False\<rparr>,
           w\<lparr>disk := (disk w)(fresh w \<mapsto> []), fresh := Suc (fresh w)\<rparr>))"

text \<open>
  \<open>os.OpenFile\<close>: a new file object at offset 0. \<open>O_CREATE|O_EXCL\<close> refuses a file
  that exists, \<open>O_TRUNC\<close> empties it; without \<open>O_CREATE\<close> a missing file is an error.
\<close>

definition os_OpenFile :: "nat \<Rightarrow> int \<Rightarrow> nat \<Rightarrow> 'b world \<Rightarrow> (error + os_File) \<times> 'b world" where
  "os_OpenFile p fl pm w =
     (case fault w OpOpenFile of
        Some e \<Rightarrow> (Inl e, w)
      | None \<Rightarrow>
          (case disk w p of
             None \<Rightarrow>
               if fl AND O_CREATE = 0 then (Inl (Wrap ''open'' ErrNotExist), w)
               else (Inr \<lparr>path = p, offset = 0, oflag = fl, closed = False\<rparr>,
                     w\<lparr>disk := (disk w)(p \<mapsto> [])\<rparr>)
           | Some c \<Rightarrow>
               if fl AND O_CREATE \<noteq> 0 \<and> fl AND O_EXCL \<noteq> 0 then (Inl (Wrap ''open'' ErrExist), w)
               else (Inr \<lparr>path = p, offset = 0, oflag = fl, closed = False\<rparr>,
                     if fl AND O_TRUNC \<noteq> 0 then w\<lparr>disk := (disk w)(p \<mapsto> [])\<rparr> else w)))"

definition os_Open :: "nat \<Rightarrow> 'b world \<Rightarrow> (error + os_File) \<times> 'b world" where
  "os_Open p w = os_OpenFile p O_RDONLY 0 w"

text \<open>What a reader positioned on an open file yields until end of file.\<close>

definition read_all :: "os_File \<Rightarrow> 'b world \<Rightarrow> bytes" where
  "read_all t w = drop (offset t) (content_of w (path t))"

text \<open>
  \<open>(*os.File).Read\<close> into a buffer of length \<open>plen\<close>: the count, the bytes placed in
  the buffer and the error. At end of file a non-empty buffer gets \<open>(0, io.EOF)\<close>.
\<close>

definition os_Read :: "nat \<Rightarrow> os_File \<Rightarrow> 'b world \<Rightarrow> (int \<times> bytes \<times> error option) \<times> os_File" where
  "os_Read plen t w =
     (if closed t then ((0, [], Some ErrClosed), t)
      else case fault w OpRead of
        Some e \<Rightarrow> ((0, [], Some e), t)
      | None \<Rightarrow>
          if \<not> can_read (oflag t) then ((0, [], Some EBADF), t)
          else let data = take plen (read_all t w) in
            if data = [] \<and> 0 < plen then ((0, [], Some EOF), t)
            else ((int (length data), data, None), t\<lparr>offset := offset t + length data\<rparr>))"

text \<open>
  Writing \<open>p\<close> at position \<open>at\<close> of a file with content \<open>c\<close>: a gap past the end is
  filled with zero bytes; nothing changes when \<open>p\<close> is empty.
\<close>

definition write_at :: "bytes \<Rightarrow> nat \<Rightarrow> bytes \<Rightarrow> bytes" where
  "write_at c at p =
     (if p = [] then c
      else take at c @ replicate (at - length c) (CHR 0x00) @ p @ drop (at + length p) c)"

definition os_Write :: "bytes \<Rightarrow> os_File \<Rightarrow> 'b world \<Rightarrow> (int \<times> error option) \<times> os_File \<times> 'b world" where
  "os_Write p t w =
     (if closed t then ((0, Some ErrClosed), t, w)
      else case fault w OpWrite of
        Some e \<Rightarrow> ((0, Some e), t, w)
      | None \<Rightarrow>
          if \<not> can_write (oflag t) then ((0, Some EBADF), t, w)
          else let c = content_of w (path t);
                   at = (if oflag t AND O_APPEND \<noteq> 0 then length c else offset t)
               in ((int (length p), None),
                   t\<lparr>offset := at + length p\<rparr>,
                   w\<lparr>disk := (disk w)(path t \<mapsto> write_at c at p)\<rparr>))"

text \<open>\<open>(*os.File).Seek\<close>: on an error the returned offset is 0.\<close>

definition os_Seek :: "int \<Rightarrow> int \<Rightarrow> os_File \<Rightarrow> 'b world \<Rightarrow> (int \<times> error option) \<times> os_File" where
  "os_Seek off whence t w =
     (if closed t then ((0, Some ErrClosed), t)
      else case fault w OpSeek of
        Some e \<Rightarrow> ((0, Some e), t)
      | None \<Rightarrow>
          let target =
                (if whence = SeekStart then off
                 else if whence = SeekCurrent then int (offset t) + off
                 else if whence = SeekEnd then int (length (content_of w (path t))) + off
                 else - 1)
          in if target < 0 then ((0, Some (Wrap ''seek'' ErrInvalid)), t)
             else ((target, None), t\<lparr>offset := nat target\<rparr>))"

text \<open>
  \<open>(*os.File).Close\<close> on a pointer that may be nil: a nil receiver returns
  \<open>os.ErrInvalid\<close>, a second close \<open>os.ErrClosed\<close>.
\<close>

definition os_Close :: "os_File option \<Rightarrow> 'b world \<Rightarrow> error option \<times> os_File option" where
  "os_Close tp w =
     (case tp of
        None \<Rightarrow> (Some ErrInvalid, None)
      | Some t \<Rightarrow>
          if closed t then (Some ErrClosed, Some t)
          else (fault w OpClose, Some (t\<lparr>closed := True\<rparr>)))"

definition os_RemoveAll :: "nat \<Rightarrow> 'b world \<Rightarrow> 'b world" where
  "os_RemoveAll p w = w\<lparr>disk := (disk w)(p := None)\<rparr>"

text \<open>
  \<open>io.Copy(tf, rc)\<close>: the stream's bytes are written to the file; the result is the
  count written and the first error met, the write's or the stream's.
\<close>

definition io_Copy :: "os_File \<Rightarrow> stream \<Rightarrow> 'b world \<Rightarrow> (int \<times> error option) \<times> os_File \<times> 'b world" where
  "io_Copy t rc w =
     (case os_Write (fst rc) t w of
        ((n, Some e), t', w') \<Rightarrow> ((n, Some e), t', w')
      | ((n, None), t', w') \<Rightarrow> ((n, snd rc), t', w'))"

section \<open>The adapter\<close>

text \<open>
  The struct \<open>File\<close>. The mutex \<open>mu\<close> has no field here: the model runs one call at
  a time, which is what the lock enforces on one handle.
\<close>

record 'b File =
  isNew :: bool
  tf :: "os_File option"
  pos :: int
  api :: "'b FileRESTAPI"
  name :: string
  flag :: int
  perm :: nat

text \<open>\<open>RESTFileSystem.OpenFile\<close>, with the field \<open>API\<close> of the receiver as first argument.\<close>

definition OpenFile :: "'b FileRESTAPI \<Rightarrow> string \<Rightarrow> int \<Rightarrow> nat \<Rightarrow> 'b world \<Rightarrow> (error + 'b File) \<times> 'b world" where
  "OpenFile a nm fl pm w =
     (case api_Stat a nm w of
        (r, w1) \<Rightarrow>
          let err = (case r of Inl e \<Rightarrow> Some e | Inr s \<Rightarrow> None);
              exists = (\<not> errors_Is_nilable err ErrNotExist)
          in case err of
               Some e \<Rightarrow>
                 if exists \<or> fl AND O_CREATE = 0
                 then (Inl (Wrap ''error while opening file'' e), w1)
                 else (Inr \<lparr>isNew = \<not> exists, tf = None, pos = 0, api = a, name = nm,
                            flag = fl, perm = pm\<rparr>, w1)
             | None \<Rightarrow>
                 (Inr \<lparr>isNew = \<not> exists, tf = None, pos = 0, api = a, name = nm,
                       flag = fl, perm = pm\<rparr>, w1))"

text \<open>\<open>RESTFileSystem.Stat\<close> passes the call through.\<close>

definition RESTFileSystem_Stat :: "'b FileRESTAPI \<Rightarrow> string \<Rightarrow> 'b world \<Rightarrow> (error + FileInfo) \<times> 'b world" where
  "RESTFileSystem_Stat a nm w = api_Stat a nm w"

text \<open>\<open>File.stat\<close>: nil (after a message on standard error) when the backend fails.\<close>

definition File_stat :: "'b File \<Rightarrow> 'b world \<Rightarrow> FileInfo option \<times> 'b world" where
  "File_stat f w =
     (case api_Stat (api f) (name f) w of
        (Inl e, w1) \<Rightarrow> (None, w1)
      | (Inr s, w1) \<Rightarrow> (Some s, w1))"

definition File_Size :: "'b File \<Rightarrow> 'b world \<Rightarrow> int \<times> 'b world" where
  "File_Size f w =
     (case File_stat f w of
        (None, w1) \<Rightarrow> (0, w1)
      | (Some fi, w1) \<Rightarrow> (fi_size fi, w1))"

text \<open>\<open>File.Stat\<close>.\<close>

definition File_Stat :: "'b File \<Rightarrow> 'b world \<Rightarrow> (error + fs_FileInfo) \<times> 'b world" where
  "File_Stat f w =
     (if isNew f \<and> flag f AND O_CREATE > 0
      then (Inr (Synthetic \<lparr>nfi_name = name f, nfi_mode = perm f, nfi_t = now w\<rparr>), w)
      else case api_Stat (api f) (name f) w of
             (Inl e, w1) \<Rightarrow> (Inl e, w1)
           | (Inr s, w1) \<Rightarrow> (Inr (Backend s), w1))"

text \<open>
  \<open>File.Seek\<close>. Staged, it delegates to the staging file and stores the returned
  offset; unmaterialized, it computes the new position from the tracked one.
\<close>

definition File_Seek :: "int \<Rightarrow> int \<Rightarrow> 'b File \<Rightarrow> 'b world \<Rightarrow> (int \<times> error option) \<times> 'b File \<times> 'b world" where
  "File_Seek off whence f w =
     (case tf f of
        Some t \<Rightarrow>
          (case os_Seek off whence t w of
             ((ret, err), t') \<Rightarrow> ((ret, err), f\<lparr>tf := Some t', pos := ret\<rparr>, w))
      | None \<Rightarrow>
          (case (if whence = SeekStart then (off, w)
                 else if whence = SeekCurrent then (wrap64 (pos f + off), w)
                 else if whence = SeekEnd then
                   (case File_Size f w of (sz, w1) \<Rightarrow> (wrap64 (sz + off), w1))
                 else (- 1, w)) of
             (npos, w1) \<Rightarrow>
               if npos < 0 then ((0, Some ErrInvalid), f, w1)
               else ((npos, None), f\<lparr>pos := npos\<rparr>, w1)))"

text \<open>
  \<open>File.tempFile\<close>: the staging file, created on first use. The remote content is
  copied into it unless \<open>O_TRUNC\<close> is set or the object is new; the file is then
  reopened with the handle's own flags, and the tracked position moves to the copied
  length when \<open>O_APPEND\<close> is set. The first component is the pair \<open>(f.tf, err)\<close>
  returned: \<open>Inl err\<close> when \<open>err\<close> is not nil.
\<close>

definition File_tempFile :: "'b File \<Rightarrow> 'b world \<Rightarrow> (error + os_File) \<times> 'b File \<times> 'b world" where
  "File_tempFile f w =
     (case tf f of
        Some t \<Rightarrow> (Inr t, f, w)
      | None \<Rightarrow>
          (case os_MkdirAll w of
             Some e \<Rightarrow> (Inl (Wrap ''cannot create tmp dir'' e), f, w)
           | None \<Rightarrow>
               (case os_CreateTemp w of
                  (Inl e, w1) \<Rightarrow> (Inl (Wrap ''cannot create tmp file'' e), f, w1)
                | (Inr t0, w1) \<Rightarrow>
                    (case (if flag f AND O_TRUNC = 0 \<and> \<not> isNew f then
                             (case api_GetContent (api f) (name f) w1 of
                                (Inl e, w2) \<Rightarrow> (Inl e, w2)
                              | (Inr rc, w2) \<Rightarrow>
                                  (case io_Copy t0 rc w2 of
                                     ((n, Some e), t1, w3) \<Rightarrow> (Inl e, w3)
                                   | ((n, None), t1, w3) \<Rightarrow> (Inr n, w3)))
                           else (Inr 0, w1)) of
                       (Inl e, w4) \<Rightarrow> (Inl e, f, w4)
                     | (Inr sz, w4) \<Rightarrow>
                         (case os_OpenFile (path t0) (flag f) (perm f) w4 of
                            (Inl e, w5) \<Rightarrow>
                              (Inl e,
                               if flag f AND O_APPEND > 0 then f\<lparr>tf := None, pos := sz\<rparr>
                               else f\<lparr>tf := None\<rparr>,
                               w5)
                          | (Inr t, w5) \<Rightarrow>
                              (Inr t,
                               if flag f AND O_APPEND > 0 then f\<lparr>tf := Some t, pos := sz\<rparr>
                               else f\<lparr>tf := Some t\<rparr>,
                               w5))))))"

text \<open>
  \<open>File.Read\<close> with a buffer of length \<open>plen\<close>: the count \<open>n\<close>, the bytes placed in
  the buffer, and the error.
\<close>

definition File_Read :: "nat \<Rightarrow> 'b File \<Rightarrow> 'b world \<Rightarrow> (int \<times> bytes \<times> error option) \<times> 'b File \<times> 'b world" where
  "File_Read plen f w =
     (case File_tempFile f w of
        (Inl e, f1, w1) \<Rightarrow> ((- 1, [], Some e), f1, w1)
      | (Inr t, f1, w1) \<Rightarrow>
          (case os_Read plen t w1 of
             ((n, data, Some e), t') \<Rightarrow> ((n, data, Some e), f1\<lparr>tf := Some t'\<rparr>, w1)
           | ((n, data, None), t') \<Rightarrow>
               ((n, data, None), f1\<lparr>tf := Some t', pos := wrap64 (pos f1 + n)\<rparr>, w1)))"

text \<open>\<open>File.Write\<close>.\<close>

definition File_Write :: "bytes \<Rightarrow> 'b File \<Rightarrow> 'b world \<Rightarrow> (int \<times> error option) \<times> 'b File \<times> 'b world" where
  "File_Write p f w =
     (case File_tempFile f w of
        (Inl e, f1, w1) \<Rightarrow> ((- 1, Some e), f1, w1)
      | (Inr t, f1, w1) \<Rightarrow>
          (case os_Write p t w1 of
             ((n, Some e), t', w2) \<Rightarrow> ((n, Some e), f1\<lparr>tf := Some t'\<rparr>, w2)
           | ((n, None), t', w2) \<Rightarrow>
               ((n, None), f1\<lparr>tf := Some t', pos := wrap64 (pos f1 + n)\<rparr>, w2)))"

text \<open>
  A call either returns or panics. \<open>(*os.File).Name\<close> reads a field of its receiver,
  so calling it on a nil pointer is a nil dereference, which panics.
\<close>

datatype 'a outcome = Panic | Return 'a

text \<open>
  The body of \<open>File.Close\<close> between the registration of the deferred calls and their
  execution. The stream handed to \<open>NewFile\<close> is empty when nothing was staged and the
  staging file read from its start otherwise. Closing that stream (\<open>rc.Close()\<close>) is
  a no-op on the \<open>io.NopCloser\<close> and the first close of a fresh file object otherwise.
\<close>

definition Close_body :: "'b File \<Rightarrow> 'b world \<Rightarrow> error option outcome \<times> 'b File \<times> 'b world" where
  "Close_body file w =
     (if isNew file then
        (case (case tf file of
                 None \<Rightarrow> (Inr None, w)
               | Some t \<Rightarrow>
                   (case os_Open (path t) w of
                      (Inl e, w1) \<Rightarrow> (Inl e, w1)
                    | (Inr rc, w1) \<Rightarrow> (Inr (Some rc), w1))) of
           (Inl e, w1) \<Rightarrow> (Return (Some (Wrap ''cannot open tempfile'' e)), file, w1)
         | (Inr rc, w1) \<Rightarrow>
             (case api_NewFile (api file) (name file)
                     (case rc of None \<Rightarrow> [] | Some r \<Rightarrow> read_all r w1) w1 of
                (Some e, w2) \<Rightarrow> (Return (Some e), file, w2)
              | (None, w2) \<Rightarrow>
                  (case (case rc of None \<Rightarrow> None | Some r \<Rightarrow> fst (os_Close (Some r) w2)) of
                     Some e \<Rightarrow> (Return (Some e), file, w2)
                   | None \<Rightarrow>
                       (case os_Close (tf file) w2 of
                          (Some e, t') \<Rightarrow> (Return (Some (Wrap ''cannot close'' e)), file\<lparr>tf := t'\<rparr>, w2)
                        | (None, t') \<Rightarrow> (Return None, file\<lparr>tf := t'\<rparr>, w2)))))
      else if flag file AND (O_RDWR OR O_WRONLY) > 0 then
        (case tf file of
           None \<Rightarrow> (Panic, file, w)
         | Some t \<Rightarrow>
             (case os_OpenFile (path t) O_RDONLY 0 w of
                (Inl e, w1) \<Rightarrow> (Return (Some e), file, w1)
              | (Inr readFile, w1) \<Rightarrow>
                  (case (if isNew file
                         then api_NewFile (api file) (name file) (read_all readFile w1) w1
                         else api_Update (api file) (name file) (read_all readFile w1) w1) of
                     (r, w2) \<Rightarrow> (Return None, file, w2))))
      else (Return None, file, w))"

text \<open>
  \<open>File.Close\<close>: when a staging file exists at entry, the deferred calls close it and
  remove it from the disk on every way out of the body, a panic included.
\<close>

definition File_Close :: "'b File \<Rightarrow> 'b world \<Rightarrow> error option outcome \<times> 'b File \<times> 'b world" where
  "File_Close file w =
     (case Close_body file w of
        (r, file1, w1) \<Rightarrow>
          (case tf file of
             None \<Rightarrow> (r, file1, w1)
           | Some t \<Rightarrow>
               (r, file1\<lparr>tf := snd (os_Close (tf file1) w1)\<rparr>, os_RemoveAll (path t) w1)))"

section \<open>A backend kept in memory\<close>

text \<open>
  A small implementation of \<open>FileRESTAPI\<close> in the manner of the repository's
  \<open>MockAPI\<close>: objects by name, a missing name answered with an error that wraps
  \<open>fs.ErrNotExist\<close>, and, to stand for a backend that is unreachable, an error that
  \<open>Update\<close> returns when set.
\<close>

record mem =
  objects :: "(string \<times> bytes) list"
  update_err :: "error option"

definition mem_api :: "mem FileRESTAPI" where
  "mem_api =
     \<lparr>GetContent = (\<lambda>nm b.
        case map_of (objects b) nm of
          None \<Rightarrow> (Inl (Wrap ''open'' ErrNotExist), b)
        | Some c \<Rightarrow> (Inr (c, None), b)),
      Stat = (\<lambda>nm b.
        case map_of (objects b) nm of
          None \<Rightarrow> (Inl (Wrap ''stat'' ErrNotExist), b)
        | Some c \<Rightarrow>
            (Inr \<lparr>fi_name = nm, fi_size = int (length c), fi_mode = 420, fi_modTime = 0,
                  fi_isDir = False\<rparr>, b)),
      Update = (\<lambda>nm content b.
        case update_err b of
          Some e \<Rightarrow> (Some e, b)
        | None \<Rightarrow>
            (case map_of (objects b) nm of
               None \<Rightarrow> (Some (Wrap ''open'' ErrNotExist), b)
             | Some c \<Rightarrow> (None, b\<lparr>objects := (nm, content) # objects b\<rparr>))),
      NewFile = (\<lambda>nm content b. (None, b\<lparr>objects := (nm, content) # objects b\<rparr>))\<rparr>"

definition mem_world :: "(string \<times> bytes) list \<Rightarrow> error option \<Rightarrow> mem world" where
  "mem_world objs uerr =
     \<lparr>backend = \<lparr>objects = objs, update_err = uerr\<rparr>, calls = [], disk = Map.empty,
      fresh = 0, faults = [], now = 0\<rparr>"

text \<open>
  The worlds and handles of the examples: a backend without objects, one that holds
  \<open>/b.txt\<close> with content \<open>world\<close>, and the same with \<open>Update\<close> failing; the handle
  that \<open>OpenFile\<close> builds, and a world after the \<open>Stat\<close> probe of \<open>OpenFile\<close>.
\<close>

definition absent_world :: "mem world" where
  "absent_world = mem_world [] None"

definition world_b :: "mem world" where
  "world_b = mem_world [(''/b.txt'', ''world'')] None"

definition world_b_down :: "mem world" where
  "world_b_down = mem_world [(''/b.txt'', ''world'')] (Some (Opaque ''503 Service Unavailable''))"

definition fresh_handle :: "bool \<Rightarrow> string \<Rightarrow> int \<Rightarrow> nat \<Rightarrow> mem File" where
  "fresh_handle new nm fl pm =
     \<lparr>isNew = new, tf = None, pos = 0, api = mem_api, name = nm, flag = fl, perm = pm\<rparr>"

definition probed :: "string \<Rightarrow> mem world \<Rightarrow> mem world" where
  "probed nm w = w\<lparr>calls := calls w @ [CallStat nm]\<rparr>"

text \<open>The handle and world after \<open>Write("!")\<close> on \<open>/b.txt\<close> opened \<open>O_WRONLY|O_TRUNC\<close>.\<close>

definition written_b :: "mem File \<times> mem world" where
  "written_b =
     snd (File_Write ''!'' (fresh_handle False ''/b.txt'' (O_WRONLY OR O_TRUNC) 420)
            (probed ''/b.txt'' world_b))"

text \<open>The same after \<open>Write("x")\<close> on \<open>/b.txt\<close> opened \<open>O_WRONLY\<close>, the backend's \<open>Update\<close> failing.\<close>

definition written_down :: "mem File \<times> mem world" where
  "written_down =
     snd (File_Write ''x'' (fresh_handle False ''/b.txt'' O_WRONLY 420)
            (probed ''/b.txt'' world_b_down))"

text \<open>
  The absent object \<open>/a.txt\<close> opened \<open>O_CREATE|O_RDWR|O_TRUNC\<close>: after
  \<open>Write("hello")\<close>, and after the \<open>Close\<close> that follows.
\<close>

definition written_a :: "mem File \<times> mem world" where
  "written_a =
     snd (File_Write ''hello'' (fresh_handle True ''/a.txt'' (O_CREATE OR O_RDWR OR O_TRUNC) 420)
            (probed ''/a.txt'' absent_world))"

definition flushed_a :: "mem File \<times> mem world" where
  "flushed_a = snd (File_Close (fst written_a) (snd written_a))"

section \<open>Unfolding rules\<close>

lemmas flag_defs = O_RDONLY_def O_WRONLY_def O_RDWR_def O_CREATE_def O_EXCL_def O_TRUNC_def
  O_APPEND_def SeekStart_def SeekCurrent_def SeekEnd_def

lemmas api_defs = api_Stat_def api_GetContent_def api_Update_def api_NewFile_def

lemmas os_defs = fault_def can_read_def can_write_def content_of_def os_MkdirAll_def
  os_CreateTemp_def os_OpenFile_def os_Open_def read_all_def os_Read_def write_at_def
  os_Write_def os_Seek_def os_Close_def os_RemoveAll_def io_Copy_def

lemmas file_defs = OpenFile_def RESTFileSystem_Stat_def File_stat_def File_Size_def
  File_Stat_def File_Seek_def File_tempFile_def File_Read_def File_Write_def Close_body_def
  File_Close_def

lemmas mem_defs = mem_api_def mem_world_def

lemmas scen_defs = absent_world_def world_b_def world_b_down_def fresh_handle_def probed_def

lemma and_create_nonneg: "0 \<le> (fl::int) AND O_CREATE"
  by (simp add: O_CREATE_def)

lemma wrap64_id: "- (2 ^ 63) \<le> x \<Longrightarrow> x < 2 ^ 63 \<Longrightarrow> wrap64 x = x"
  by (simp add: wrap64_def)

lemma fault_updates:
  "fault (w\<lparr>disk := d\<rparr>) opn = fault w opn"
  "fault (w\<lparr>fresh := n\<rparr>) opn = fault w opn"
  "fault (w\<lparr>calls := cs\<rparr>) opn = fault w opn"
  "fault (w\<lparr>backend := b\<rparr>) opn = fault w opn"
  by (simp_all add: fault_def)

lemma write_at_empty: "write_at [] 0 p = p"
  by (simp add: write_at_def)

text \<open>What \<open>OpenFile\<close> returns for an object the backend knows.\<close>

lemma OpenFile_existing:
  assumes "Stat a nm (backend w) = (Inr s, b)"
  shows "OpenFile a nm fl pm w =
     (Inr \<lparr>isNew = False, tf = None, pos = 0, api = a, name = nm, flag = fl, perm = pm\<rparr>,
      w\<lparr>backend := b, calls := calls w @ [CallStat nm]\<rparr>)"
  using assms by (simp add: OpenFile_def api_Stat_def)

text \<open>The handles of the examples are the ones \<open>OpenFile\<close> returns.\<close>

lemma OpenFile_b:
  "OpenFile mem_api ''/b.txt'' fl pm world_b = (Inr (fresh_handle False ''/b.txt'' fl pm), probed ''/b.txt'' world_b)"
  by (simp add: OpenFile_def api_Stat_def mem_defs scen_defs)

lemma OpenFile_b_down:
  "OpenFile mem_api ''/b.txt'' fl pm world_b_down
     = (Inr (fresh_handle False ''/b.txt'' fl pm), probed ''/b.txt'' world_b_down)"
  by (simp add: OpenFile_def api_Stat_def mem_defs scen_defs)

lemma OpenFile_a:
  "fl AND O_CREATE \<noteq> 0 \<Longrightarrow>
   OpenFile mem_api ''/a.txt'' fl pm absent_world
     = (Inr (fresh_handle True ''/a.txt'' fl pm), probed ''/a.txt'' absent_world)"
  by (simp add: OpenFile_def api_Stat_def mem_defs scen_defs)

section \<open>Opening a missing object\<close>

text \<open>
  C8. When the backend's \<open>Stat\<close> answers with an error that is not-found
  (\<open>errors.Is(err, fs.ErrNotExist)\<close>) and the open flags lack \<open>O_CREATE\<close>,
  \<open>OpenFile\<close> returns an error, and that error, wrapped under the context
  "error while opening file", still tests as not-found.
\<close>

theorem OpenFile_not_found_without_create:
  assumes "Stat a nm (backend w) = (Inl e, b)"
      and "errors_Is e ErrNotExist"
      and "fl AND O_CREATE = 0"
  shows "\<exists>err w'. OpenFile a nm fl pm w = (Inl err, w') \<and> errors_Is err ErrNotExist"
  using assms by (simp add: OpenFile_def api_Stat_def)

theorem OpenFile_not_found_without_create_witness:
  "Stat mem_api ''/missing'' (backend (mem_world [] None))
     = (Inl (Wrap ''stat'' ErrNotExist), backend (mem_world [] None))
   \<and> errors_Is (Wrap ''stat'' ErrNotExist) ErrNotExist
   \<and> O_RDONLY AND O_CREATE = 0
   \<and> (\<exists>err w'. OpenFile mem_api ''/missing'' O_RDONLY 0 (mem_world [] None) = (Inl err, w')
         \<and> errors_Is err ErrNotExist)"
proof -
  have h1: "Stat mem_api ''/missing'' (backend (mem_world [] None))
     = (Inl (Wrap ''stat'' ErrNotExist), backend (mem_world [] None))"
    by (simp add: mem_defs)
  have h2: "errors_Is (Wrap ''stat'' ErrNotExist) ErrNotExist" by simp
  have h3: "O_RDONLY AND O_CREATE = 0" by (simp add: flag_defs)
  from OpenFile_not_found_without_create [OF h1 h2 h3] h1 h2 h3 show ?thesis by blast
qed

section \<open>Metadata of a handle\<close>

text \<open>
  C7. When the backend's \<open>Stat\<close> reports the name as not found and the open flags
  carry \<open>O_CREATE\<close>, \<open>OpenFile\<close> returns a handle, and \<open>Stat\<close> on that handle, with no
  \<open>Read\<close> or \<open>Write\<close> in between, returns the synthetic metadata without a call to the
  backend (the world is unchanged): size 0, not a directory, the handle's name and the
  requested permission. When the backend knows the object, the handle is not marked
  new; and a handle that is not new, or was opened without \<open>O_CREATE\<close>, answers
  \<open>Stat\<close> with what the backend's \<open>Stat\<close> returns.
\<close>

theorem Stat_after_create_open:
  "(Stat a nm (backend w) = (Inl e, b) \<and> errors_Is e ErrNotExist \<and> fl AND O_CREATE \<noteq> 0 \<longrightarrow>
      (\<exists>f w1 info. OpenFile a nm fl pm w = (Inr f, w1) \<and> isNew f \<and> tf f = None \<and>
         File_Stat f w1 = (Inr info, w1) \<and>
         info = Synthetic \<lparr>nfi_name = nm, nfi_mode = pm, nfi_t = now w1\<rparr> \<and>
         Info_Size info = 0 \<and> \<not> Info_IsDir info \<and> Info_Name info = nm \<and> Info_Mode info = pm))
   \<and> (Stat a nm (backend w) = (Inr s, b) \<longrightarrow>
        (\<exists>g w1. OpenFile a nm fl pm w = (Inr g, w1) \<and> \<not> isNew g))
   \<and> (\<not> isNew g \<or> flag g AND O_CREATE = 0 \<longrightarrow>
        File_Stat g v =
          (case api_Stat (api g) (name g) v of
             (Inl e, v1) \<Rightarrow> (Inl e, v1)
           | (Inr s, v1) \<Rightarrow> (Inr (Backend s), v1)))"
proof (intro conjI impI)
  assume h: "Stat a nm (backend w) = (Inl e, b) \<and> errors_Is e ErrNotExist \<and> fl AND O_CREATE \<noteq> 0"
  moreover have "0 \<le> fl AND O_CREATE" by (rule and_create_nonneg)
  ultimately have "0 < fl AND O_CREATE" by linarith
  with h show "\<exists>f w1 info. OpenFile a nm fl pm w = (Inr f, w1) \<and> isNew f \<and> tf f = None \<and>
         File_Stat f w1 = (Inr info, w1) \<and>
         info = Synthetic \<lparr>nfi_name = nm, nfi_mode = pm, nfi_t = now w1\<rparr> \<and>
         Info_Size info = 0 \<and> \<not> Info_IsDir info \<and> Info_Name info = nm \<and> Info_Mode info = pm"
    by (simp add: OpenFile_def api_Stat_def File_Stat_def newFileInfo_Name_def
        newFileInfo_Size_def newFileInfo_Mode_def newFileInfo_IsDir_def)
next
  assume "Stat a nm (backend w) = (Inr s, b)"
  then show "\<exists>g w1. OpenFile a nm fl pm w = (Inr g, w1) \<and> \<not> isNew g"
    by (simp add: OpenFile_existing)
next
  assume "\<not> isNew g \<or> flag g AND O_CREATE = 0"
  then show "File_Stat g v =
          (case api_Stat (api g) (name g) v of
             (Inl e, v1) \<Rightarrow> (Inl e, v1)
           | (Inr s, v1) \<Rightarrow> (Inr (Backend s), v1))"
    by (auto simp add: File_Stat_def)
qed

theorem Stat_after_create_open_witness:
  "(\<exists>f w1 info. OpenFile mem_api ''/a.txt'' (O_CREATE OR O_WRONLY) 420 absent_world = (Inr f, w1)
       \<and> isNew f \<and> tf f = None \<and> File_Stat f w1 = (Inr info, w1) \<and>
       info = Synthetic \<lparr>nfi_name = ''/a.txt'', nfi_mode = 420, nfi_t = now w1\<rparr> \<and>
       Info_Size info = 0 \<and> \<not> Info_IsDir info \<and> Info_Name info = ''/a.txt'' \<and> Info_Mode info = 420)
   \<and> (\<exists>g w1. OpenFile mem_api ''/b.txt'' O_RDONLY 0 world_b = (Inr g, w1) \<and> \<not> isNew g
       \<and> fst (File_Stat g w1) =
           Inr (Backend \<lparr>fi_name = ''/b.txt'', fi_size = 5, fi_mode = 420, fi_modTime = 0,
                         fi_isDir = False\<rparr>)
       \<and> calls (snd (File_Stat g w1)) = calls w1 @ [CallStat ''/b.txt''])"
proof -
  have a1: "Stat mem_api ''/a.txt'' (backend absent_world)
      = (Inl (Wrap ''stat'' ErrNotExist), backend absent_world)"
    by (simp add: mem_defs absent_world_def)
  have a2: "errors_Is (Wrap ''stat'' ErrNotExist) ErrNotExist" by simp
  have a3: "(O_CREATE OR O_WRONLY) AND O_CREATE \<noteq> 0" by (simp add: flag_defs)
  have b1: "Stat mem_api ''/b.txt'' (backend world_b)
      = (Inr \<lparr>fi_name = ''/b.txt'', fi_size = 5, fi_mode = 420, fi_modTime = 0, fi_isDir = False\<rparr>,
         backend world_b)"
    by (simp add: mem_defs world_b_def)
  note inst1 = Stat_after_create_open [of mem_api "''/a.txt''" absent_world
      "Wrap ''stat'' ErrNotExist" "backend absent_world" "O_CREATE OR O_WRONLY" 420]
  note inst2 = Stat_after_create_open [of mem_api "''/b.txt''" world_b _ "backend world_b" O_RDONLY 0
      "\<lparr>fi_name = ''/b.txt'', fi_size = 5, fi_mode = 420, fi_modTime = 0, fi_isDir = False\<rparr>"]
  from inst1 a1 a2 a3
  have part1: "\<exists>f w1 info. OpenFile mem_api ''/a.txt'' (O_CREATE OR O_WRONLY) 420 absent_world = (Inr f, w1)
       \<and> isNew f \<and> tf f = None \<and> File_Stat f w1 = (Inr info, w1) \<and>
       info = Synthetic \<lparr>nfi_name = ''/a.txt'', nfi_mode = 420, nfi_t = now w1\<rparr> \<and>
       Info_Size info = 0 \<and> \<not> Info_IsDir info \<and> Info_Name info = ''/a.txt'' \<and> Info_Mode info = 420"
    by blast
  from inst2 b1 obtain g w1
    where g: "OpenFile mem_api ''/b.txt'' O_RDONLY 0 world_b = (Inr g, w1)" "\<not> isNew g"
    by blast
  have st: "File_Stat g w1 =
      (case api_Stat (api g) (name g) w1 of
         (Inl e, v1) \<Rightarrow> (Inl e, v1)
       | (Inr s, v1) \<Rightarrow> (Inr (Backend s), v1))"
    by (rule Stat_after_create_open [THEN conjunct2, THEN conjunct2, THEN mp]) (simp add: g(2))
  from g(1) have geq: "g = fresh_handle False ''/b.txt'' O_RDONLY 0"
    and weq: "w1 = probed ''/b.txt'' world_b"
    by (simp_all add: OpenFile_b)
  have "fst (File_Stat g w1) =
           Inr (Backend \<lparr>fi_name = ''/b.txt'', fi_size = 5, fi_mode = 420, fi_modTime = 0,
                         fi_isDir = False\<rparr>)
       \<and> calls (snd (File_Stat g w1)) = calls w1 @ [CallStat ''/b.txt'']"
    unfolding st by (simp add: geq weq api_Stat_def mem_defs scen_defs)
  with g part1 show ?thesis by blast
qed

section \<open>Seeking before anything is staged\<close>

text \<open>
  C6. On a handle without a staging file, \<open>Seek\<close> computes the target position from
  its arguments: the offset for \<open>SeekStart\<close>, the tracked position plus the offset for
  \<open>SeekCurrent\<close>, the size the backend's \<open>Stat\<close> reports (0 when that call fails) plus
  the offset for \<open>SeekEnd\<close>, with \<open>int64\<close> addition. A negative target (and any other
  whence) is refused with \<open>os.ErrInvalid\<close> and leaves the position as it was; otherwise
  the target is returned and becomes the tracked position. The handle stays without a
  staging file, the disk is untouched, and the only backend call is the one \<open>Stat\<close>
  of \<open>SeekEnd\<close>: no content is fetched.
\<close>

theorem Seek_unmaterialized:
  assumes "tf f = None"
      and "File_Seek off whence f w = (res, f', w')"
  shows "tf f' = None \<and> disk w' = disk w \<and> fresh w' = fresh w
     \<and> calls w' = calls w @ (if whence = SeekEnd then [CallStat (name f)] else [])
     \<and> (let target =
              (if whence = SeekStart then off
               else if whence = SeekCurrent then wrap64 (pos f + off)
               else if whence = SeekEnd then
                 wrap64 ((case fst (Stat (api f) (name f) (backend w)) of
                            Inl e \<Rightarrow> 0 | Inr s \<Rightarrow> fi_size s) + off)
               else - 1)
         in if target < 0 then res = (0, Some ErrInvalid) \<and> pos f' = pos f
            else res = (target, None) \<and> pos f' = target)"
  using assms
  by (auto simp add: File_Seek_def File_Size_def File_stat_def api_Stat_def Let_def flag_defs
      split: if_splits prod.splits sum.splits)

theorem Seek_unmaterialized_witness:
  "tf (fresh_handle False ''/b.txt'' O_RDONLY 0) = None
   \<and> File_Seek 0 SeekEnd (fresh_handle False ''/b.txt'' O_RDONLY 0) (probed ''/b.txt'' world_b)
       = ((5, None), (fresh_handle False ''/b.txt'' O_RDONLY 0)\<lparr>pos := 5\<rparr>,
          probed ''/b.txt'' (probed ''/b.txt'' world_b))
   \<and> tf ((fresh_handle False ''/b.txt'' O_RDONLY 0)\<lparr>pos := 5\<rparr>) = None
   \<and> disk (probed ''/b.txt'' (probed ''/b.txt'' world_b)) = disk (probed ''/b.txt'' world_b)
   \<and> calls (probed ''/b.txt'' (probed ''/b.txt'' world_b))
       = calls (probed ''/b.txt'' world_b) @ [CallStat ''/b.txt'']
   \<and> File_Seek 0 SeekCurrent ((fresh_handle False ''/b.txt'' O_RDONLY 0)\<lparr>pos := 5\<rparr>)
        (probed ''/b.txt'' (probed ''/b.txt'' world_b))
       = ((5, None), (fresh_handle False ''/b.txt'' O_RDONLY 0)\<lparr>pos := 5\<rparr>,
          probed ''/b.txt'' (probed ''/b.txt'' world_b))
   \<and> fst (File_Seek (- 1) SeekStart (fresh_handle False ''/b.txt'' O_RDONLY 0)
        (probed ''/b.txt'' world_b)) = (0, Some ErrInvalid)"
proof -
  have h1: "tf (fresh_handle False ''/b.txt'' O_RDONLY 0) = None"
    by (simp add: fresh_handle_def)
  have h2: "File_Seek 0 SeekEnd (fresh_handle False ''/b.txt'' O_RDONLY 0) (probed ''/b.txt'' world_b)
       = ((5, None), (fresh_handle False ''/b.txt'' O_RDONLY 0)\<lparr>pos := 5\<rparr>,
          probed ''/b.txt'' (probed ''/b.txt'' world_b))"
    by (simp add: scen_defs mem_defs file_defs api_defs flag_defs wrap64_def)
  have h3: "File_Seek 0 SeekCurrent ((fresh_handle False ''/b.txt'' O_RDONLY 0)\<lparr>pos := 5\<rparr>)
        (probed ''/b.txt'' (probed ''/b.txt'' world_b))
       = ((5, None), (fresh_handle False ''/b.txt'' O_RDONLY 0)\<lparr>pos := 5\<rparr>,
          probed ''/b.txt'' (probed ''/b.txt'' world_b))"
    by (simp add: scen_defs mem_defs file_defs api_defs flag_defs wrap64_def)
  have h4: "fst (File_Seek (- 1) SeekStart (fresh_handle False ''/b.txt'' O_RDONLY 0)
        (probed ''/b.txt'' world_b)) = (0, Some ErrInvalid)"
    by (simp add: scen_defs mem_defs file_defs api_defs flag_defs wrap64_def)
  from Seek_unmaterialized [OF h1 h2]
  have "tf ((fresh_handle False ''/b.txt'' O_RDONLY 0)\<lparr>pos := 5\<rparr>) = None
   \<and> disk (probed ''/b.txt'' (probed ''/b.txt'' world_b)) = disk (probed ''/b.txt'' world_b)
   \<and> calls (probed ''/b.txt'' (probed ''/b.txt'' world_b))
       = calls (probed ''/b.txt'' world_b) @ [CallStat ''/b.txt'']"
    by (simp add: fresh_handle_def)
  with h1 h2 h3 h4 show ?thesis by simp
qed

section \<open>Staging and the flush at close\<close>

lemma tempFile_truncating:
  assumes "tf f = None" and "flag f AND O_TRUNC \<noteq> 0"
      and "File_tempFile f w = (Inr t, f1, w1)"
  shows "t = \<lparr>path = fresh w, offset = 0, oflag = flag f, closed = False\<rparr>
       \<and> tf f1 = Some t \<and> isNew f1 = isNew f \<and> flag f1 = flag f \<and> api f1 = api f
       \<and> name f1 = name f
       \<and> w1 = w\<lparr>disk := (disk w)(fresh w \<mapsto> []), fresh := Suc (fresh w)\<rparr>
       \<and> fault w OpOpenFile = None"
  using assms
  by (auto simp add: File_tempFile_def os_MkdirAll_def os_CreateTemp_def os_OpenFile_def
      fault_updates split: if_splits option.splits)

lemma os_Write_success:
  assumes "os_Write p t w = ((n, None), t', w')"
  shows "path t' = path t
       \<and> w' = w\<lparr>disk := (disk w)(path t \<mapsto>
                 write_at (content_of w (path t))
                   (if oflag t AND O_APPEND \<noteq> 0 then length (content_of w (path t))
                    else offset t) p)\<rparr>"
  using assms by (auto simp add: os_Write_def Let_def split: if_splits option.splits)

text \<open>
  C4. An object the backend knows is opened with \<open>O_TRUNC\<close> and write access, and a
  \<open>Write\<close> of the bytes \<open>B\<close> on the fresh handle succeeds. Then \<open>Close\<close> returns nil
  and the backend has seen, since before the open, the \<open>Stat\<close> of \<open>OpenFile\<close> and one
  \<open>Update\<close> whose stream is exactly \<open>B\<close>, and nothing else: the remote content was
  never fetched.
\<close>

theorem truncate_write_close_updates_once:
  assumes "Stat a nm (backend w) = (Inr s, b)"
      and "fl AND O_TRUNC \<noteq> 0"
      and "fl AND (O_RDWR OR O_WRONLY) > 0"
      and "OpenFile a nm fl pm w = (Inr f, w1)"
      and "File_Write B f w1 = ((int (length B), None), f2, w2)"
  shows "\<exists>f3 w3. File_Close f2 w2 = (Return None, f3, w3)
           \<and> calls w3 = calls w @ [CallStat nm, CallUpdate nm B]"
proof -
  from assms(1,4)
  have f: "f = \<lparr>isNew = False, tf = None, pos = 0, api = a, name = nm, flag = fl, perm = pm\<rparr>"
    and w1: "w1 = w\<lparr>backend := b, calls := calls w @ [CallStat nm]\<rparr>"
    by (simp_all add: OpenFile_existing)
  obtain r f1 v1 where tfr: "File_tempFile f w1 = (r, f1, v1)"
    by (cases "File_tempFile f w1") auto
  with assms(5) obtain t where r: "r = Inr t"
    by (cases r) (auto simp add: File_Write_def)
  have tfacts: "t = \<lparr>path = fresh w1, offset = 0, oflag = flag f, closed = False\<rparr>
       \<and> tf f1 = Some t \<and> isNew f1 = isNew f \<and> flag f1 = flag f \<and> api f1 = api f
       \<and> name f1 = name f
       \<and> v1 = w1\<lparr>disk := (disk w1)(fresh w1 \<mapsto> []), fresh := Suc (fresh w1)\<rparr>
       \<and> fault w1 OpOpenFile = None"
    by (rule tempFile_truncating [where f = f and w = w1])
       (use tfr r assms(2) in \<open>simp_all add: f\<close>)
  from assms(5) tfr r obtain t' where wr: "os_Write B t v1 = ((int (length B), None), t', w2)"
    and f2: "isNew f2 = isNew f1" "flag f2 = flag f1" "api f2 = api f1" "name f2 = name f1"
            "tf f2 = Some t'"
    by (auto simp add: File_Write_def split: prod.splits option.splits)
  have tpath: "path t = fresh w" "offset t = 0"
    using tfacts by (simp_all add: w1)
  have v1: "fault v1 OpOpenFile = None" "content_of v1 (fresh w) = []"
       "calls v1 = calls w @ [CallStat nm]"
    using tfacts by (simp_all add: w1 fault_updates content_of_def)
  from os_Write_success [OF wr] have tp: "path t' = fresh w"
    and w2: "w2 = v1\<lparr>disk := (disk v1)(fresh w \<mapsto> B)\<rparr>"
    using tpath v1 by (simp_all add: write_at_empty)
  have w2facts: "fault w2 OpOpenFile = None" "disk w2 (fresh w) = Some B"
       "calls w2 = calls w @ [CallStat nm]"
    using v1 by (simp_all add: w2 fault_updates)
  have hf2: "\<not> isNew f2" "flag f2 = fl" "api f2 = a" "name f2 = nm"
    using f2 tfacts by (simp_all add: f)
  have opn: "os_OpenFile (fresh w) O_RDONLY 0 w2 =
      (Inr \<lparr>path = fresh w, offset = 0, oflag = O_RDONLY, closed = False\<rparr>, w2)"
    using w2facts by (simp add: os_OpenFile_def flag_defs)
  have body: "Close_body f2 w2 = (Return None, f2, snd (api_Update a nm B w2))"
    using hf2 assms(3) f2(5) tp opn w2facts
    by (simp add: Close_body_def read_all_def content_of_def split: prod.splits)
  have "calls (snd (api_Update a nm B w2)) = calls w @ [CallStat nm, CallUpdate nm B]"
    using w2facts by (simp add: api_Update_def split: prod.splits)
  then show ?thesis
    using body f2(5) tp by (simp add: File_Close_def os_RemoveAll_def)
qed

theorem truncate_write_close_updates_once_witness:
  "Stat mem_api ''/b.txt'' (backend world_b)
     = (Inr \<lparr>fi_name = ''/b.txt'', fi_size = 5, fi_mode = 420, fi_modTime = 0, fi_isDir = False\<rparr>,
        backend world_b)
   \<and> (O_WRONLY OR O_TRUNC) AND O_TRUNC \<noteq> 0
   \<and> (O_WRONLY OR O_TRUNC) AND (O_RDWR OR O_WRONLY) > 0
   \<and> OpenFile mem_api ''/b.txt'' (O_WRONLY OR O_TRUNC) 420 world_b
     = (Inr (fresh_handle False ''/b.txt'' (O_WRONLY OR O_TRUNC) 420), probed ''/b.txt'' world_b)
   \<and> File_Write ''!'' (fresh_handle False ''/b.txt'' (O_WRONLY OR O_TRUNC) 420)
        (probed ''/b.txt'' world_b)
     = ((1, None), written_b)
   \<and> (\<exists>f3 w3. File_Close (fst written_b) (snd written_b) = (Return None, f3, w3)
         \<and> calls w3 = [CallStat ''/b.txt'', CallUpdate ''/b.txt'' ''!''])"
proof -
  have h1: "Stat mem_api ''/b.txt'' (backend world_b)
     = (Inr \<lparr>fi_name = ''/b.txt'', fi_size = 5, fi_mode = 420, fi_modTime = 0, fi_isDir = False\<rparr>,
        backend world_b)"
    by (simp add: scen_defs mem_defs)
  have h2: "(O_WRONLY OR O_TRUNC) AND O_TRUNC \<noteq> 0" by (simp add: flag_defs)
  have h3: "(O_WRONLY OR O_TRUNC) AND (O_RDWR OR O_WRONLY) > 0" by (simp add: flag_defs)
  have h4: "OpenFile mem_api ''/b.txt'' (O_WRONLY OR O_TRUNC) 420 world_b
     = (Inr (fresh_handle False ''/b.txt'' (O_WRONLY OR O_TRUNC) 420), probed ''/b.txt'' world_b)"
    by (rule OpenFile_b)
  have "fst (File_Write ''!'' (fresh_handle False ''/b.txt'' (O_WRONLY OR O_TRUNC) 420)
               (probed ''/b.txt'' world_b)) = (1, None)"
    by (simp add: scen_defs mem_defs file_defs api_defs flag_defs os_defs)
  then have h5: "File_Write ''!'' (fresh_handle False ''/b.txt'' (O_WRONLY OR O_TRUNC) 420)
       (probed ''/b.txt'' world_b) = ((int (length ''!''), None), fst written_b, snd written_b)"
    by (simp add: written_b_def prod_eq_iff)
  from truncate_write_close_updates_once [OF h1 h2 h3 h4 h5]
  have "\<exists>f3 w3. File_Close (fst written_b) (snd written_b) = (Return None, f3, w3)
         \<and> calls w3 = [CallStat ''/b.txt'', CallUpdate ''/b.txt'' ''!'']"
    by (simp add: world_b_def mem_world_def)
  with h1 h2 h3 h4 h5 show ?thesis by simp
qed

text \<open>
  What \<open>Close\<close> does on a new object, for any backend. Without a staging file the
  stream is empty, and after a successful \<open>NewFile\<close> the call \<open>file.tf.Close()\<close> on
  the nil pointer yields \<open>os.ErrInvalid\<close>. With an open staging file the stream is the
  file's content, and \<open>Close\<close> returns nil when \<open>NewFile\<close> does.
\<close>

lemma Close_new_unstaged:
  assumes "isNew f" and "tf f = None"
      and "NewFile (api f) (name f) [] (backend w) = (None, b)"
  shows "File_Close f w =
     (Return (Some (Wrap ''cannot close'' ErrInvalid)), f,
      w\<lparr>backend := b, calls := calls w @ [CallNewFile (name f) []]\<rparr>)"
  using assms
  by (simp add: File_Close_def Close_body_def api_NewFile_def os_Close_def)

lemma Close_new_staged:
  assumes "isNew f" and "tf f = Some t" and "\<not> closed t"
      and "disk w (path t) = Some c" and "faults w = []"
      and "NewFile (api f) (name f) c (backend w) = (None, b)"
  shows "fst (File_Close f w) = Return None
       \<and> calls (snd (snd (File_Close f w))) = calls w @ [CallNewFile (name f) c]"
  using assms
  by (simp add: File_Close_def Close_body_def api_NewFile_def os_Close_def os_Open_def
      os_OpenFile_def fault_def read_all_def content_of_def os_RemoveAll_def flag_defs)

text \<open>
  C1. The object \<open>/a.txt\<close> is absent and is opened \<open>O_CREATE|O_WRONLY\<close>; nothing is
  read or written, and the handle is closed. \<open>Close\<close> calls \<open>NewFile\<close> once, with an
  empty stream, and the backend's \<open>NewFile\<close> returns nil; yet \<open>Close\<close> returns the
  error "cannot close" wrapping \<open>os.ErrInvalid\<close>, not nil.
\<close>

theorem Close_after_create_without_write_reports_error:
  "OpenFile mem_api ''/a.txt'' (O_CREATE OR O_WRONLY) 420 absent_world
     = (Inr (fresh_handle True ''/a.txt'' (O_CREATE OR O_WRONLY) 420), probed ''/a.txt'' absent_world)
   \<and> NewFile mem_api ''/a.txt'' [] (backend (probed ''/a.txt'' absent_world))
     = (None, \<lparr>objects = [(''/a.txt'', [])], update_err = None\<rparr>)
   \<and> fst (File_Close (fresh_handle True ''/a.txt'' (O_CREATE OR O_WRONLY) 420)
            (probed ''/a.txt'' absent_world))
     = Return (Some (Wrap ''cannot close'' ErrInvalid))
   \<and> calls (snd (snd (File_Close (fresh_handle True ''/a.txt'' (O_CREATE OR O_WRONLY) 420)
        (probed ''/a.txt'' absent_world))))
     = [CallStat ''/a.txt'', CallNewFile ''/a.txt'' []]"
  by (simp add: scen_defs mem_defs file_defs api_defs flag_defs os_defs)

text \<open>
  What \<open>Close\<close> does on an object that existed at open, opened with write access, for
  any backend: with a staging file, the result of \<open>Update\<close> is dropped and \<open>Close\<close>
  returns nil whenever the staging file can be reopened; without one, the call
  \<open>file.tf.Name()\<close> dereferences the nil pointer.
\<close>

lemma Close_ignores_Update_result:
  assumes "\<not> isNew f" and "0 < flag f AND (O_RDWR OR O_WRONLY)" and "tf f = Some t"
      and "os_OpenFile (path t) O_RDONLY 0 w = (Inr rf, w1)"
  shows "fst (File_Close f w) = Return None"
  using assms
  by (simp add: File_Close_def Close_body_def split: prod.splits)

lemma Close_panics_without_staging:
  assumes "\<not> isNew f" and "0 < flag f AND (O_RDWR OR O_WRONLY)" and "tf f = None"
  shows "File_Close f w = (Panic, f, w)"
  using assms by (simp add: File_Close_def Close_body_def)

text \<open>
  C2. The object \<open>/b.txt\<close> exists and is opened \<open>O_WRONLY\<close>; \<open>Write("x")\<close> stages
  the content and succeeds. The backend's \<open>Update\<close> fails with "503 Service
  Unavailable" on the stream \<open>Close\<close> hands it, and \<open>Close\<close> makes that one \<open>Update\<close>
  call; yet \<open>Close\<close> returns nil, not the failure.
\<close>

theorem Close_drops_Update_error:
  "OpenFile mem_api ''/b.txt'' O_WRONLY 420 world_b_down
     = (Inr (fresh_handle False ''/b.txt'' O_WRONLY 420), probed ''/b.txt'' world_b_down)
   \<and> File_Write ''x'' (fresh_handle False ''/b.txt'' O_WRONLY 420) (probed ''/b.txt'' world_b_down)
     = ((1, None), written_down)
   \<and> tf (fst written_down)
     = Some \<lparr>path = 0, offset = 1, oflag = O_WRONLY, closed = False\<rparr>
   \<and> disk (snd written_down) 0 = Some ''xorld''
   \<and> fst (Update mem_api ''/b.txt'' ''xorld'' (backend (snd written_down)))
     = Some (Opaque ''503 Service Unavailable'')
   \<and> fst (File_Close (fst written_down) (snd written_down)) = Return None
   \<and> calls (snd (snd (File_Close (fst written_down) (snd written_down))))
     = [CallStat ''/b.txt'', CallGetContent ''/b.txt'', CallUpdate ''/b.txt'' ''xorld'']"
proof -
  have w: "written_down =
      ((fresh_handle False ''/b.txt'' O_WRONLY 420)
         \<lparr>tf := Some \<lparr>path = 0, offset = 1, oflag = O_WRONLY, closed = False\<rparr>, pos := 1\<rparr>,
       (probed ''/b.txt'' world_b_down)
         \<lparr>calls := [CallStat ''/b.txt'', CallGetContent ''/b.txt''],
          disk := [0 \<mapsto> ''xorld''], fresh := 1\<rparr>)"
    by (simp add: written_down_def scen_defs mem_defs file_defs api_defs flag_defs os_defs
        wrap64_def)
  have r: "fst (File_Write ''x'' (fresh_handle False ''/b.txt'' O_WRONLY 420)
             (probed ''/b.txt'' world_b_down)) = (1, None)"
    by (simp add: scen_defs mem_defs file_defs api_defs flag_defs os_defs)
  have wr: "File_Write ''x'' (fresh_handle False ''/b.txt'' O_WRONLY 420) (probed ''/b.txt'' world_b_down)
     = ((1, None), written_down)"
    using r by (simp add: written_down_def prod_eq_iff)
  show ?thesis
    unfolding wr
    by (simp add: OpenFile_b_down)
       (simp add: w scen_defs mem_defs file_defs api_defs flag_defs os_defs)
qed

text \<open>
  C3. The object \<open>/b.txt\<close> exists and is opened \<open>O_WRONLY\<close>; nothing is read or
  written, so the handle has no staging file. \<open>Close\<close> panics.
\<close>

theorem Close_panics_on_unstaged_write_handle:
  "OpenFile mem_api ''/b.txt'' O_WRONLY 420 world_b
     = (Inr (fresh_handle False ''/b.txt'' O_WRONLY 420), probed ''/b.txt'' world_b)
   \<and> tf (fresh_handle False ''/b.txt'' O_WRONLY 420) = None
   \<and> fst (File_Close (fresh_handle False ''/b.txt'' O_WRONLY 420) (probed ''/b.txt'' world_b))
     = Panic"
  by (simp add: scen_defs mem_defs file_defs api_defs flag_defs)

text \<open>
  Staging and the position. The tracked position is left as it was unless \<open>O_APPEND\<close>
  is set, when it becomes the length copied from the backend (0 when nothing is
  copied). The staging file itself is opened at offset 0, whatever position the handle
  tracked, and the first \<open>Read\<close> after staging starts there.
\<close>

lemma staging_position:
  assumes "tf f = None" and "File_tempFile f w = (Inr t, f1, w1)"
  shows "if 0 < flag f AND O_APPEND
         then (if flag f AND O_TRUNC = 0 \<and> \<not> isNew f
               then \<exists>data. fst (GetContent (api f) (name f) (backend w)) = Inr (data, None)
                      \<and> pos f1 = int (length data)
               else pos f1 = 0)
         else pos f1 = pos f"
  using assms
  by (auto simp add: File_tempFile_def os_OpenFile_def os_MkdirAll_def os_CreateTemp_def
      api_GetContent_def io_Copy_def os_Write_def Let_def
      split: if_splits option.splits prod.splits sum.splits)

lemma staging_file_starts_at_zero:
  assumes "tf f = None" and "File_tempFile f w = (Inr t, f1, w1)"
  shows "offset t = 0"
  using assms
  by (auto simp add: File_tempFile_def os_OpenFile_def
      split: if_splits option.splits prod.splits sum.splits)

text \<open>
  C5. The object \<open>/b.txt\<close> holds \<open>world\<close> and is opened \<open>O_RDONLY\<close>. \<open>Seek(2,
  SeekStart)\<close> on the unmaterialized handle returns 2 and tracks position 2. The
  \<open>Read\<close> that follows, into a buffer of three bytes, stages the content and leaves
  the tracked position at 2 before reading; it transfers \<open>wor\<close>, the bytes from offset
  0, where the bytes from offset 2 are \<open>rld\<close>, and the tracked position ends at 5.
\<close>

theorem Read_after_Seek_reads_from_start:
  "OpenFile mem_api ''/b.txt'' O_RDONLY 0 world_b
     = (Inr (fresh_handle False ''/b.txt'' O_RDONLY 0), probed ''/b.txt'' world_b)
   \<and> File_Seek 2 SeekStart (fresh_handle False ''/b.txt'' O_RDONLY 0) (probed ''/b.txt'' world_b)
     = ((2, None), (fresh_handle False ''/b.txt'' O_RDONLY 0)\<lparr>pos := 2\<rparr>, probed ''/b.txt'' world_b)
   \<and> pos (fst (snd (File_tempFile ((fresh_handle False ''/b.txt'' O_RDONLY 0)\<lparr>pos := 2\<rparr>)
        (probed ''/b.txt'' world_b)))) = 2
   \<and> fst (File_Read 3 ((fresh_handle False ''/b.txt'' O_RDONLY 0)\<lparr>pos := 2\<rparr>)
        (probed ''/b.txt'' world_b))
     = (3, ''wor'', None)
   \<and> take 3 (drop 2 ''world'') = ''rld''
   \<and> pos (fst (snd (File_Read 3 ((fresh_handle False ''/b.txt'' O_RDONLY 0)\<lparr>pos := 2\<rparr>)
        (probed ''/b.txt'' world_b)))) = 5"
  by (simp add: scen_defs mem_defs file_defs api_defs flag_defs os_defs wrap64_def)

section \<open>Metadata after the flush\<close>

lemma File_Close_keeps_identity:
  assumes "File_Close f w = (r, f', w')"
  shows "isNew f' = isNew f \<and> flag f' = flag f \<and> name f' = name f \<and> perm f' = perm f
       \<and> api f' = api f"
  using assms
  by (auto simp add: File_Close_def Close_body_def
      split: if_splits option.splits prod.splits sum.splits)

lemma written_a_result:
  "File_Write ''hello'' (fresh_handle True ''/a.txt'' (O_CREATE OR O_RDWR OR O_TRUNC) 420)
      (probed ''/a.txt'' absent_world) = ((5, None), written_a)"
  by (simp add: written_a_def prod_eq_iff)
     (simp add: scen_defs mem_defs file_defs api_defs flag_defs os_defs)

lemma flushed_a_result:
  "File_Close (fst written_a) (snd written_a) = (Return None, flushed_a)"
  by (simp add: flushed_a_def prod_eq_iff)
     (simp add: written_a_def scen_defs mem_defs file_defs api_defs flag_defs os_defs)

text \<open>
  C9. A handle opened with create intent on an absent object keeps answering \<open>Stat\<close>
  with the synthetic metadata after \<open>Close\<close>: \<open>Close\<close> changes neither \<open>isNew\<close> nor the
  flags, and \<open>Stat\<close> on the closed handle makes no call to the backend. The backend's
  metadata is what \<open>RESTFileSystem.Stat\<close> returns; and once the backend's \<open>Stat\<close>
  reports the object, a handle opened after the flush is not new, so its \<open>Stat\<close>
  returns what the backend returns.
\<close>

theorem Stat_on_closed_created_handle:
  assumes "isNew f" and "0 < flag f AND O_CREATE" and "File_Close f w = (r, f', w')"
  shows "File_Stat f' w'
           = (Inr (Synthetic \<lparr>nfi_name = name f, nfi_mode = perm f, nfi_t = now w'\<rparr>), w')
       \<and> fst (RESTFileSystem_Stat (api f) (name f) w') = fst (Stat (api f) (name f) (backend w'))
       \<and> (Stat (api f) (name f) (backend w') = (Inr s, b) \<longrightarrow>
            (\<exists>g v. OpenFile (api f) (name f) fl pm w' = (Inr g, v) \<and> \<not> isNew g \<and>
               fst (File_Stat g v) =
                 (case fst (Stat (api f) (name f) (backend v)) of
                    Inl e \<Rightarrow> Inl e | Inr s' \<Rightarrow> Inr (Backend s'))))"
proof (intro conjI impI)
  from File_Close_keeps_identity [OF assms(3)] assms(1,2)
  show "File_Stat f' w'
           = (Inr (Synthetic \<lparr>nfi_name = name f, nfi_mode = perm f, nfi_t = now w'\<rparr>), w')"
    by (simp add: File_Stat_def)
next
  show "fst (RESTFileSystem_Stat (api f) (name f) w') = fst (Stat (api f) (name f) (backend w'))"
    by (simp add: RESTFileSystem_Stat_def api_Stat_def split: prod.splits)
next
  assume "Stat (api f) (name f) (backend w') = (Inr s, b)"
  then show "\<exists>g v. OpenFile (api f) (name f) fl pm w' = (Inr g, v) \<and> \<not> isNew g \<and>
               fst (File_Stat g v) =
                 (case fst (Stat (api f) (name f) (backend v)) of
                    Inl e \<Rightarrow> Inl e | Inr s' \<Rightarrow> Inr (Backend s'))"
    by (auto simp add: OpenFile_existing File_Stat_def api_Stat_def split: prod.splits sum.splits)
qed

theorem Stat_on_closed_created_handle_witness:
  "isNew (fst written_a) \<and> 0 < flag (fst written_a) AND O_CREATE
   \<and> File_Close (fst written_a) (snd written_a) = (Return None, fst flushed_a, snd flushed_a)
   \<and> Stat mem_api ''/a.txt'' (backend (snd flushed_a))
       = (Inr \<lparr>fi_name = ''/a.txt'', fi_size = 5, fi_mode = 420, fi_modTime = 0, fi_isDir = False\<rparr>,
          backend (snd flushed_a))
   \<and> File_Stat (fst flushed_a) (snd flushed_a)
       = (Inr (Synthetic \<lparr>nfi_name = ''/a.txt'', nfi_mode = 420, nfi_t = 0\<rparr>), snd flushed_a)
   \<and> fst (RESTFileSystem_Stat mem_api ''/a.txt'' (snd flushed_a))
       = Inr \<lparr>fi_name = ''/a.txt'', fi_size = 5, fi_mode = 420, fi_modTime = 0, fi_isDir = False\<rparr>
   \<and> (\<exists>g v. OpenFile mem_api ''/a.txt'' O_RDONLY 0 (snd flushed_a) = (Inr g, v) \<and> \<not> isNew g \<and>
          fst (File_Stat g v)
            = Inr (Backend \<lparr>fi_name = ''/a.txt'', fi_size = 5, fi_mode = 420, fi_modTime = 0,
                            fi_isDir = False\<rparr>))"
proof -
  have id: "isNew (fst written_a)" "flag (fst written_a) = O_CREATE OR O_RDWR OR O_TRUNC"
    "name (fst written_a) = ''/a.txt''" "perm (fst written_a) = 420" "api (fst written_a) = mem_api"
    by (simp_all add: written_a_def scen_defs mem_defs file_defs api_defs flag_defs os_defs)
  have h1: "isNew (fst written_a)" by (rule id(1))
  have h2: "0 < flag (fst written_a) AND O_CREATE" by (simp add: id(2) flag_defs)
  have h3: "File_Close (fst written_a) (snd written_a) = (Return None, fst flushed_a, snd flushed_a)"
    by (simp add: flushed_a_result)
  have bk: "objects (backend (snd flushed_a)) = [(''/a.txt'', ''hello'')]" "now (snd flushed_a) = 0"
    by (simp_all add: flushed_a_def written_a_def scen_defs mem_defs file_defs api_defs flag_defs
        os_defs)
  have h4: "Stat mem_api ''/a.txt'' (backend (snd flushed_a))
       = (Inr \<lparr>fi_name = ''/a.txt'', fi_size = 5, fi_mode = 420, fi_modTime = 0, fi_isDir = False\<rparr>,
          backend (snd flushed_a))"
    by (simp add: mem_api_def bk)
  have same: "\<And>v. fst (Stat mem_api ''/a.txt'' (backend v)) =
       (case map_of (objects (backend v)) ''/a.txt'' of
          None \<Rightarrow> Inl (Wrap ''stat'' ErrNotExist)
        | Some c \<Rightarrow> Inr \<lparr>fi_name = ''/a.txt'', fi_size = int (length c), fi_mode = 420,
                         fi_modTime = 0, fi_isDir = False\<rparr>)"
    by (simp add: mem_api_def split: option.splits)
  from Stat_on_closed_created_handle [OF h1 h2 h3, of _ "backend (snd flushed_a)" O_RDONLY 0] h4
  have concl: "File_Stat (fst flushed_a) (snd flushed_a)
       = (Inr (Synthetic \<lparr>nfi_name = ''/a.txt'', nfi_mode = 420, nfi_t = 0\<rparr>), snd flushed_a)"
    "fst (RESTFileSystem_Stat mem_api ''/a.txt'' (snd flushed_a))
       = Inr \<lparr>fi_name = ''/a.txt'', fi_size = 5, fi_mode = 420, fi_modTime = 0, fi_isDir = False\<rparr>"
    "\<exists>g v. OpenFile mem_api ''/a.txt'' O_RDONLY 0 (snd flushed_a) = (Inr g, v) \<and> \<not> isNew g \<and>
          fst (File_Stat g v) =
            (case fst (Stat mem_api ''/a.txt'' (backend v)) of
               Inl e \<Rightarrow> Inl e | Inr s' \<Rightarrow> Inr (Backend s'))"
    by (simp_all add: id bk)
  from concl(3) h4 obtain g v where g: "OpenFile mem_api ''/a.txt'' O_RDONLY 0 (snd flushed_a) = (Inr g, v)"
    "\<not> isNew g" "fst (File_Stat g v) =
            (case fst (Stat mem_api ''/a.txt'' (backend v)) of
               Inl e \<Rightarrow> Inl e | Inr s' \<Rightarrow> Inr (Backend s'))"
    by blast
  from g(1) have "backend v = backend (snd flushed_a)"
    by (auto simp add: OpenFile_existing [OF h4])
  with g(3) h4 have "fst (File_Stat g v)
            = Inr (Backend \<lparr>fi_name = ''/a.txt'', fi_size = 5, fi_mode = 420, fi_modTime = 0,
                            fi_isDir = False\<rparr>)"
    by simp
  with g h1 h2 h3 h4 concl(1,2) show ?thesis by blast
qed

text \<open>
  Counterexample to C9 as first stated (after the flush, \<open>Stat\<close> on the same handle
  returns the backend's metadata). \<open>/a.txt\<close> is absent and is opened
  \<open>O_CREATE|O_RDWR|O_TRUNC\<close>; \<open>Write("hello")\<close> and \<open>Close\<close> succeed and the backend
  then reports the object with size 5. \<open>Stat\<close> on the closed handle still returns
  the synthetic metadata, of size 0, and makes no backend call.
\<close>

theorem Stat_after_flush_is_synthetic:
  "OpenFile mem_api ''/a.txt'' (O_CREATE OR O_RDWR OR O_TRUNC) 420 absent_world
     = (Inr (fresh_handle True ''/a.txt'' (O_CREATE OR O_RDWR OR O_TRUNC) 420),
        probed ''/a.txt'' absent_world)
   \<and> File_Write ''hello'' (fresh_handle True ''/a.txt'' (O_CREATE OR O_RDWR OR O_TRUNC) 420)
        (probed ''/a.txt'' absent_world) = ((5, None), written_a)
   \<and> File_Close (fst written_a) (snd written_a) = (Return None, flushed_a)
   \<and> calls (snd flushed_a) = [CallStat ''/a.txt'', CallNewFile ''/a.txt'' ''hello'']
   \<and> fst (Stat mem_api ''/a.txt'' (backend (snd flushed_a)))
       = Inr \<lparr>fi_name = ''/a.txt'', fi_size = 5, fi_mode = 420, fi_modTime = 0, fi_isDir = False\<rparr>
   \<and> fst (File_Stat (fst flushed_a) (snd flushed_a))
       = Inr (Synthetic \<lparr>nfi_name = ''/a.txt'', nfi_mode = 420, nfi_t = 0\<rparr>)
   \<and> fst (File_Stat (fst flushed_a) (snd flushed_a))
       \<noteq> Inr (Backend \<lparr>fi_name = ''/a.txt'', fi_size = 5, fi_mode = 420, fi_modTime = 0,
                        fi_isDir = False\<rparr>)
   \<and> calls (snd (File_Stat (fst flushed_a) (snd flushed_a))) = calls (snd flushed_a)"
proof -
  have o: "OpenFile mem_api ''/a.txt'' (O_CREATE OR O_RDWR OR O_TRUNC) 420 absent_world
     = (Inr (fresh_handle True ''/a.txt'' (O_CREATE OR O_RDWR OR O_TRUNC) 420),
        probed ''/a.txt'' absent_world)"
    by (rule OpenFile_a) (simp add: flag_defs)
  have fl: "fst flushed_a = (fresh_handle True ''/a.txt'' (O_CREATE OR O_RDWR OR O_TRUNC) 420)
      \<lparr>tf := Some \<lparr>path = 0, offset = 5, oflag = O_CREATE OR O_RDWR OR O_TRUNC, closed = True\<rparr>,
       pos := 5\<rparr>"
    by (simp add: flushed_a_def written_a_def scen_defs mem_defs file_defs api_defs flag_defs
        os_defs wrap64_def)
  have bk: "objects (backend (snd flushed_a)) = [(''/a.txt'', ''hello'')]" "now (snd flushed_a) = 0"
    "calls (snd flushed_a) = [CallStat ''/a.txt'', CallNewFile ''/a.txt'' ''hello'']"
    by (simp_all add: flushed_a_def written_a_def scen_defs mem_defs file_defs api_defs flag_defs
        os_defs)
  have st: "File_Stat (fst flushed_a) (snd flushed_a)
       = (Inr (Synthetic \<lparr>nfi_name = ''/a.txt'', nfi_mode = 420, nfi_t = 0\<rparr>), snd flushed_a)"
    by (simp add: fl File_Stat_def fresh_handle_def flag_defs bk)
  have bs: "fst (Stat mem_api ''/a.txt'' (backend (snd flushed_a)))
       = Inr \<lparr>fi_name = ''/a.txt'', fi_size = 5, fi_mode = 420, fi_modTime = 0, fi_isDir = False\<rparr>"
    by (simp add: mem_api_def bk)
  show ?thesis
    by (simp add: o written_a_result flushed_a_result st bs bk)
qed

end
